theory Spec2Isabelle
  imports Complex_Main
begin

section \<open>Numbers, vectors and circles\<close>

text \<open>
  A Python float is a double. The values are real numbers, and the scalar arithmetic of
  the sampler, of the arc's angle and speed and of the particle's lifetime and alpha is
  rounded to the nearest double after every operation (\<open>fl\<close>), as the machine does: the
  claims about them turn on exact values. The geometry of the collision (the vector
  operations of the library, distances, the displacement of the ball) is over the real
  numbers, the arithmetic the program approximates there.
  A \<open>pygame.Vector2\<close> and a \<open>Point\<close> are pairs.
\<close>

type_synonym vec = "real \<times> real"

datatype error = ValueError | AttributeError | ShapeError | PygameError

subsection \<open>Rounding to double\<close>

text \<open>Rounding to the nearest integer, a tie going to the even one.\<close>

definition round_even :: "real \<Rightarrow> int" where
  "round_even x =
     (let n = \<lfloor>x\<rfloor>; r = x - of_int n
      in if r < 1 / 2 then n else if 1 / 2 < r then n + 1 else if even n then n else n + 1)"

text \<open>
  The exponent of the unit in the last place of a double near \<open>x\<close>: 52 below the binade
  of \<open>x\<close>, and never below that of the subnormal numbers.
\<close>

definition fl_exp :: "real \<Rightarrow> int" where
  "fl_exp x = max \<lfloor>log 2 \<bar>x\<bar>\<rfloor> (- 1022) - 52"

text \<open>
  The double nearest to \<open>x\<close>, ties to even (IEEE 754 binary64, round to nearest).
  Overflow to infinity is left out: no computation below leaves the finite range.
\<close>

definition fl :: "real \<Rightarrow> real" where
  "fl x =
     (if x = 0 then 0
      else 2 powr of_int (fl_exp x) * of_int (round_even (x / 2 powr of_int (fl_exp x))))"

text \<open>\<open>math.pi\<close>, the double nearest to \<open>\<pi>\<close>: \<open>0x1.921fb54442d18p+1\<close>.\<close>

definition math_pi :: real where
  "math_pi = 884279719003555 / 281474976710656"

text \<open>Python's \<open>int(x)\<close> on a float truncates towards zero.\<close>

definition py_int :: "real \<Rightarrow> int" where
  "py_int x = (if 0 \<le> x then \<lfloor>x\<rfloor> else \<lceil>x\<rceil>)"

text \<open>
  Python's \<open>x % y\<close> on floats: the exact remainder of the truncated division (C's
  \<open>fmod\<close>), to which \<open>y\<close> is added, with rounding, when it is not zero and its sign is
  not the sign of \<open>y\<close>.
\<close>

definition pymod :: "real \<Rightarrow> real \<Rightarrow> real" where
  "pymod x y =
     (let m = x - y * of_int (py_int (x / y))
      in if m \<noteq> 0 \<and> (y < 0) \<noteq> (m < 0) then fl (m + y) else m)"

definition vadd :: "vec \<Rightarrow> vec \<Rightarrow> vec" where
  "vadd v w = (fst v + fst w, snd v + snd w)"

definition vsub :: "vec \<Rightarrow> vec \<Rightarrow> vec" where
  "vsub v w = (fst v - fst w, snd v - snd w)"

definition vscale :: "vec \<Rightarrow> real \<Rightarrow> vec" where
  "vscale v k = (fst v * k, snd v * k)"

definition vdot :: "vec \<Rightarrow> vec \<Rightarrow> real" where
  "vdot v w = fst v * fst w + snd v * snd w"

definition vlength :: "vec \<Rightarrow> real" where
  "vlength v = sqrt ((fst v)\<^sup>2 + (snd v)\<^sup>2)"

text \<open>
  Modelled from the spec: \<open>pygame.Vector2\<close> is a library type, not part of the sources.
  \<open>normalize\<close> on a zero-length vector fails (the spec's \<open>DegenerateVectorError\<close>; the
  library raises \<open>ValueError\<close>); otherwise it divides by the length.
\<close>

definition normalize :: "vec \<Rightarrow> error + vec" where
  "normalize v = (if v = (0, 0) then Inl ValueError else Inr (vscale v (1 / vlength v)))"

text \<open>
  Modelled from the spec: \<open>rotate_rad\<close> turns a vector by an angle in radians,
  \<open>rotate\<close> by an angle in degrees.
\<close>

definition rotate_rad :: "vec \<Rightarrow> real \<Rightarrow> vec" where
  "rotate_rad v t = (fst v * cos t - snd v * sin t, fst v * sin t + snd v * cos t)"

definition rotate :: "vec \<Rightarrow> real \<Rightarrow> vec" where
  "rotate v d = rotate_rad v (d * pi / 180)"

text \<open>
  Modelled from the spec: \<open>reflect_ip\<close> is the standard \<open>v - 2 (v . n) n\<close>; the library
  refuses a zero normal and normalises the normal itself before it reflects.
\<close>

definition vreflect :: "vec \<Rightarrow> vec \<Rightarrow> error + vec" where
  "vreflect v n =
     (if n = (0, 0) then Inl ValueError
      else let n' = vscale n (1 / vlength n)
           in Inr (vadd v (vscale n' (- 2 * vdot v n'))))"

text \<open>Python's truth test of a \<open>Vector2\<close>: false exactly for the zero vector.\<close>

definition vec_truthy :: "vec \<Rightarrow> bool" where
  "vec_truthy v = (v \<noteq> (0, 0))"

record circle =
  center :: vec
  radius :: real

definition move_ip :: "circle \<Rightarrow> vec \<Rightarrow> circle" where
  "move_ip c v = c\<lparr>center := vadd (center c) v\<rparr>"

text \<open>
  Modelled from the spec: the containment test of the library's \<open>Circle\<close>,
  \<open>|c2.center - c1.center| + c2.radius \<le> c1.radius\<close>.
\<close>

definition contains :: "circle \<Rightarrow> circle \<Rightarrow> bool" where
  "contains c1 c2 =
     (vlength (vsub (center c2) (center c1)) + radius c2 \<le> radius c1)"

section \<open>The random source\<close>

text \<open>
  The state of Python's \<open>random\<close> module is the sequence of the values its next calls
  of \<open>random()\<close> return, each a double in \<open>[0, 1)\<close>. \<open>uniform(a, b)\<close> is
  \<open>a + (b - a) * random()\<close> in float arithmetic; \<open>randint\<close> and \<open>choice\<close> take one draw
  and scale it.
\<close>

type_synonym rng = "nat \<Rightarrow> real"

definition random :: "rng \<Rightarrow> real \<times> rng" where
  "random g = (g 0, \<lambda>n. g (Suc n))"

definition uniform :: "real \<Rightarrow> real \<Rightarrow> rng \<Rightarrow> real \<times> rng" where
  "uniform a b g = (let (u, g') = random g in (fl (a + fl (fl (b - a) * u)), g'))"

definition randint :: "int \<Rightarrow> int \<Rightarrow> rng \<Rightarrow> int \<times> rng" where
  "randint a b g = (let (u, g') = random g in (a + \<lfloor>u * of_int (b - a + 1)\<rfloor>, g'))"

definition choice :: "'a list \<Rightarrow> rng \<Rightarrow> 'a \<times> rng" where
  "choice xs g = (let (u, g') = random g in (xs ! nat \<lfloor>u * of_nat (length xs)\<rfloor>, g'))"

section \<open>Constants\<close>

definition BALL_REFLECT_ANGLE :: real where "BALL_REFLECT_ANGLE = 5"
definition BALL_GRAVITY :: real where "BALL_GRAVITY = 275 / 1000"
definition ARC_DELTA :: real where "ARC_DELTA = fl (math_pi / 6)"
definition ARC_SPEED_MIN :: int where "ARC_SPEED_MIN = 150"
definition ARC_SPEED_MAX :: int where "ARC_SPEED_MAX = 300"
definition PARTICLE_SPEED :: real where "PARTICLE_SPEED = 1 / 2"
definition PARTICLE_LIFETIME :: real where "PARTICLE_LIFETIME = 40"
definition PARTICLE_AMOUNT :: nat where "PARTICLE_AMOUNT = 200"

section \<open>Sampling an angle outside a cut\<close>

definition random_angle_with_cut :: "real \<Rightarrow> real \<Rightarrow> rng \<Rightarrow> error + (real \<times> rng)" where
  "random_angle_with_cut start len g =
     (if len \<le> 0 then Inl ValueError
      else if len \<ge> 2 * math_pi then Inl ValueError
      else
        let start' = pymod start (2 * math_pi);
            end' = fl (start' + len)
        in if end' > 2 * math_pi then
             let end_wrapped = pymod end' (2 * math_pi);
                 allowed_start = end_wrapped;
                 allowed_end = start';
                 total_length = fl (allowed_end - allowed_start);
                 (random_value, g') = uniform 0 total_length g;
                 angle = fl (allowed_start + random_value)
             in Inr (pymod angle (2 * math_pi), g')
           else
             let allowed1_length = start';
                 allowed2_length = fl (2 * math_pi - end');
                 total_length = fl (allowed1_length + allowed2_length);
                 (random_value, g') = uniform 0 total_length g;
                 angle = (if random_value < allowed1_length then random_value
                          else fl (end' + fl (random_value - allowed1_length)))
             in Inr (pymod angle (2 * math_pi), g'))"

section \<open>Sprites\<close>

text \<open>
  A sprite owns a circle and a liveness flag. Its image matters here only through its
  size: the canvas of a ball, an arc or a particle is a square of side twice the radius,
  and the constructor refuses an image that is not square.
\<close>

record sprite =
  circle :: circle
  alive :: bool

text \<open>
  Modelled from the spec: \<open>pygame.Surface\<close> is the library's. It truncates a float size
  to integers and refuses a negative one.
\<close>

definition Surface :: "real \<times> real \<Rightarrow> error + (int \<times> int)" where
  "Surface sz =
     (let w = py_int (fst sz); h = py_int (snd sz)
      in if w < 0 \<or> h < 0 then Inl PygameError else Inr (w, h))"

definition Sprite_init :: "vec \<Rightarrow> int \<times> int \<Rightarrow> error + sprite" where
  "Sprite_init ctr img =
     (if fst img \<noteq> snd img then Inl ShapeError
      else Inr \<lparr>circle = \<lparr>center = ctr, radius = of_int (fst img) / 2\<rparr>, alive = True\<rparr>)"

definition kill :: "'a sprite_scheme \<Rightarrow> 'a sprite_scheme" where
  "kill s = s\<lparr>alive := False\<rparr>"

subsection \<open>Ball\<close>

record ball = sprite +
  velocity :: vec

definition Ball_init :: "vec \<Rightarrow> real \<Rightarrow> error + ball" where
  "Ball_init ctr rad =
     (case Surface (fl (rad * 2), fl (rad * 2)) of
        Inl e \<Rightarrow> Inl e
      | Inr img \<Rightarrow>
          (case Sprite_init ctr img of
             Inl e \<Rightarrow> Inl e
           | Inr s \<Rightarrow> Inr \<lparr>circle = circle s, alive = alive s, velocity = (0, 0)\<rparr>))"

definition reset :: "ball \<Rightarrow> vec \<Rightarrow> ball" where
  "reset b ctr = b\<lparr>velocity := (0, 0), circle := (circle b)\<lparr>center := ctr\<rparr>\<rparr>"

definition reflect :: "ball \<Rightarrow> circle \<Rightarrow> rng \<Rightarrow> error + (ball \<times> rng)" where
  "reflect b c g =
     (let rad = radius c - radius (circle b);
          dx = fst (center c) - fst (center (circle b));
          dy = snd (center c) - snd (center (circle b));
          len = sqrt (dx\<^sup>2 + dy\<^sup>2)
      in case normalize (dx, dy) of
           Inl e \<Rightarrow> Inl e
         | Inr normal \<Rightarrow>
             let (u, g') = random g;
                 ang = (u - 1 / 2) * BALL_REFLECT_ANGLE
             in case normalize (velocity b) of
                  Inl e \<Rightarrow> Inl e
                | Inr vn \<Rightarrow>
                    let b1 = b\<lparr>circle := move_ip (circle b) (vscale vn (rad - len))\<rparr>
                    in case vreflect (velocity b1) (rotate normal ang) of
                         Inl e \<Rightarrow> Inl e
                       | Inr v' \<Rightarrow> Inr (b1\<lparr>velocity := v'\<rparr>, g'))"

definition Ball_update :: "real \<Rightarrow> ball \<Rightarrow> ball" where
  "Ball_update speed_mult b =
     (let b1 = b\<lparr>circle := move_ip (circle b) (vscale (velocity b) speed_mult)\<rparr>
      in b1\<lparr>velocity := (fst (velocity b1), snd (velocity b1) + BALL_GRAVITY)\<rparr>)"

subsection \<open>Colours\<close>

record rgba =
  red :: int
  green :: int
  blue :: int
  alpha :: int

text \<open>
  Modelled from the spec: \<open>pygame.Color\<close> of a sequence takes three or four channels,
  each in \<open>0..255\<close>; a missing alpha is 255.
\<close>

definition Color :: "int list \<Rightarrow> error + rgba" where
  "Color cs =
     (if (length cs = 3 \<or> length cs = 4) \<and> list_all (\<lambda>c. 0 \<le> c \<and> c \<le> 255) cs
      then Inr \<lparr>red = cs ! 0, green = cs ! 1, blue = cs ! 2,
                alpha = (if length cs = 4 then cs ! 3 else 255)\<rparr>
      else Inl ValueError)"

subsection \<open>Arc\<close>

record arc = sprite +
  color :: "int list"
  speed :: real
  angle :: real

text \<open>
  The constructor tests its optional arguments with Python's truth test: \<open>None\<close>, an
  empty colour sequence and the number zero all count as absent.
\<close>

definition Arc_init ::
  "vec \<Rightarrow> real \<Rightarrow> int list option \<Rightarrow> real option \<Rightarrow> real option \<Rightarrow> rng
     \<Rightarrow> error + (arc \<times> rng)" where
  "Arc_init ctr rad col ang spd g =
     (case (if col \<noteq> None \<and> col \<noteq> Some []
            then (case Color (the col) of
                    Inl e \<Rightarrow> Inl e
                  | Inr c \<Rightarrow> Inr ([red c, green c, blue c], g))
            else (let (c1, g1) = randint 50 255 g;
                      (c2, g2) = randint 50 255 g1;
                      (c3, g3) = randint 50 255 g2
                  in Inr ([c1, c2, c3], g3))) of
        Inl e \<Rightarrow> Inl e
      | Inr (color', g1) \<Rightarrow>
          let (speed', g2) =
                (if spd \<noteq> None \<and> spd \<noteq> Some 0 then (the spd, g1)
                 else (let (sign, h1) = choice [1, - 1] g1;
                           (k, h2) = randint ARC_SPEED_MIN ARC_SPEED_MAX h1
                       in (fl (fl (sign * math_pi) / of_int k), h2)));
              (angle', g3) =
                (if ang \<noteq> None \<and> ang \<noteq> Some 0 then (the ang, g2)
                 else (let (u, h) = random g2 in (fl (fl (u * 2) * math_pi), h)))
          in case Surface (fl (rad * 2), fl (rad * 2)) of
               Inl e \<Rightarrow> Inl e
             | Inr img \<Rightarrow>
                 (case Sprite_init ctr img of
                    Inl e \<Rightarrow> Inl e
                  | Inr s \<Rightarrow>
                      Inr (\<lparr>circle = circle s, alive = alive s,
                            color = color', speed = speed', angle = angle'\<rparr>, g3)))"

text \<open>
  \<open>collide_ball\<close> moves the ball and then asks the library whether the two masks overlap;
  the mask test is a parameter \<open>collide_mask\<close> of the model.
\<close>

definition collide_ball ::
  "(arc \<Rightarrow> ball \<Rightarrow> bool) \<Rightarrow> arc \<Rightarrow> ball \<Rightarrow> error + (bool \<times> ball)" where
  "collide_ball collide_mask a b =
     (let rad = radius (circle a) - radius (circle b);
          dx = fst (center (circle a)) - fst (center (circle b));
          dy = snd (center (circle a)) - snd (center (circle b));
          len = sqrt (dx\<^sup>2 + dy\<^sup>2)
      in case normalize (velocity b) of
           Inl e \<Rightarrow> Inl e
         | Inr vn \<Rightarrow>
             let b' = b\<lparr>circle := move_ip (circle b) (vscale vn (rad - len))\<rparr>
             in Inr (collide_mask a b', b'))"

definition Arc_update :: "real \<Rightarrow> arc \<Rightarrow> arc" where
  "Arc_update speed_mult a = a\<lparr>angle := fl (angle a + fl (speed a * speed_mult))\<rparr>"

subsection \<open>Particle\<close>

record particle = sprite +
  p_velocity :: vec
  p_gravity :: vec
  p_lifetime :: real
  p_color :: rgba

definition Particle_init ::
  "vec \<Rightarrow> int list \<Rightarrow> real \<Rightarrow> vec option \<Rightarrow> vec option \<Rightarrow> real option \<Rightarrow> rng
     \<Rightarrow> error + (particle \<times> rng)" where
  "Particle_init ctr col rad vel grav life g =
     (let (velocity', g1) =
            (if vel \<noteq> None \<and> vec_truthy (the vel) then (the vel, g)
             else (let (u, h) = random g
                   in (rotate (PARTICLE_SPEED, PARTICLE_SPEED) (u * 360), h)));
          gravity' = (case grav of None \<Rightarrow> (0, 1 / 10) | Some w \<Rightarrow> w);
          lifetime' = (if life \<noteq> None \<and> life \<noteq> Some 0 then the life else PARTICLE_LIFETIME)
      in case Color col of
           Inl e \<Rightarrow> Inl e
         | Inr c \<Rightarrow>
             (case Surface (fl (rad * 2), fl (rad * 2)) of
                Inl e \<Rightarrow> Inl e
              | Inr img \<Rightarrow>
                  (case Sprite_init ctr img of
                     Inl e \<Rightarrow> Inl e
                   | Inr s \<Rightarrow>
                       Inr (\<lparr>circle = circle s, alive = alive s,
                             p_velocity = velocity', p_gravity = gravity',
                             p_lifetime = lifetime', p_color = c\<lparr>alpha := 255\<rparr>\<rparr>, g1))))"

definition Particle_update :: "real \<Rightarrow> particle \<Rightarrow> particle" where
  "Particle_update speed_mult p =
     (let p1 = p\<lparr>circle := move_ip (circle p) (vscale (p_velocity p) speed_mult)\<rparr>;
          p2 = p1\<lparr>p_velocity := vadd (p_velocity p1) (p_gravity p1)\<rparr>;
          p3 = p2\<lparr>p_lifetime := fl (p_lifetime p2 - speed_mult)\<rparr>;
          p4 = p3\<lparr>p_color := (p_color p3)
                 \<lparr>alpha := py_int (max (min (fl (fl (255 * p_lifetime p3) / PARTICLE_LIFETIME))
                                          255) 0)\<rparr>\<rparr>
      in if p_lifetime p4 \<le> 0 then kill p4 else p4)"

text \<open>The particle after one update for each speed multiplier of a list, oldest first.\<close>

fun Particle_updates :: "real list \<Rightarrow> particle \<Rightarrow> particle" where
  "Particle_updates [] p = p"
| "Particle_updates (m # ms) p = Particle_updates ms (Particle_update m p)"

section \<open>Fracturing an arc\<close>

fun break_arc_loop ::
  "nat \<Rightarrow> arc \<Rightarrow> particle list \<Rightarrow> vec \<Rightarrow> rng \<Rightarrow> error + (particle list \<times> rng)" where
  "break_arc_loop 0 a ps ctr g = Inr (ps, g)"
| "break_arc_loop (Suc n) a ps ctr g =
     (case random_angle_with_cut (fl (angle a - ARC_DELTA)) ARC_DELTA g of
        Inl e \<Rightarrow> Inl e
      | Inr (theta, g1) \<Rightarrow>
          let rv = rotate_rad (radius (circle a), 0) (- theta);
              (k, g2) = randint 1 3 g1
          in case Particle_init (vadd ctr rv) (color a) (of_int k) None None None g2 of
               Inl e \<Rightarrow> Inl e
             | Inr (p, g3) \<Rightarrow> break_arc_loop n a (ps @ [p]) ctr g3)"

definition break_arc ::
  "arc \<Rightarrow> particle list \<Rightarrow> vec \<Rightarrow> rng \<Rightarrow> error + (arc \<times> particle list \<times> rng)" where
  "break_arc a ps ctr g =
     (let a' = kill a
      in case break_arc_loop PARTICLE_AMOUNT a' ps ctr g of
           Inl e \<Rightarrow> Inl e
         | Inr (ps', g') \<Rightarrow> Inr (a', ps', g'))"

section \<open>One tick of the main loop\<close>

text \<open>
  The primary group holds the ball and the arcs. There is one ball object, which the
  loop also reaches through its own variable, so the group's entry for it is a
  reference; the arcs live in the group itself.
\<close>

datatype member = BallRef | ArcObj arc

record state =
  ball :: ball
  all_sprites :: "member list"
  particles :: "particle list"
  destroy_on_collide :: bool
  Sprite_speed_mult :: real
  screen_center :: vec

text \<open>\<open>Group.update\<close>: a live sprite is updated, a dead one is dropped from the group.\<close>

fun Group_update_sprites :: "real \<Rightarrow> member list \<Rightarrow> ball \<Rightarrow> member list \<times> ball" where
  "Group_update_sprites m [] b = ([], b)"
| "Group_update_sprites m (BallRef # xs) b =
     (if alive b
      then (let (ys, b') = Group_update_sprites m xs (Ball_update m b) in (BallRef # ys, b'))
      else Group_update_sprites m xs b)"
| "Group_update_sprites m (ArcObj a # xs) b =
     (let (ys, b') = Group_update_sprites m xs b
      in if alive a then (ArcObj (Arc_update m a) # ys, b') else (ys, b'))"

fun Group_update_particles :: "real \<Rightarrow> particle list \<Rightarrow> particle list" where
  "Group_update_particles m [] = []"
| "Group_update_particles m (p # ps) =
     (if alive p then Particle_update m p # Group_update_particles m ps
      else Group_update_particles m ps)"

definition member_circle :: "ball \<Rightarrow> member \<Rightarrow> circle" where
  "member_circle b x = (case x of BallRef \<Rightarrow> circle b | ArcObj a \<Rightarrow> circle a)"

text \<open>
  The collision step once its guard has passed, on the arc \<open>a\<close> the loop took from the
  end of the group: \<open>collide_ball\<close>, then a reflection (after a fracture when the mode
  asks for it) on a hit, a fracture on a miss. The arc goes back to the end of the group.
\<close>

definition collision_step ::
  "(arc \<Rightarrow> ball \<Rightarrow> bool) \<Rightarrow> arc \<Rightarrow> state \<Rightarrow> rng \<Rightarrow> error + (state \<times> rng)" where
  "collision_step collide_mask a s g =
     (case collide_ball collide_mask a (ball s) of
        Inl e \<Rightarrow> Inl e
      | Inr (hit, b1) \<Rightarrow>
          if hit then
            (case (if destroy_on_collide s
                   then break_arc a (particles s) (screen_center s) g
                   else Inr (a, particles s, g)) of
               Inl e \<Rightarrow> Inl e
             | Inr (a1, ps1, g1) \<Rightarrow>
                 (case reflect b1 (circle a1) g1 of
                    Inl e \<Rightarrow> Inl e
                  | Inr (b2, g2) \<Rightarrow>
                      Inr (s\<lparr>ball := b2,
                             all_sprites := butlast (all_sprites s) @ [ArcObj a1],
                             particles := ps1\<rparr>, g2)))
          else
            (case break_arc a (particles s) (screen_center s) g of
               Inl e \<Rightarrow> Inl e
             | Inr (a1, ps1, g1) \<Rightarrow>
                 Inr (s\<lparr>ball := b1,
                        all_sprites := butlast (all_sprites s) @ [ArcObj a1],
                        particles := ps1\<rparr>, g1)))"

text \<open>
  One tick after the events: both groups are updated, then the guard of the collision
  step is tested on the last member of the primary group.
\<close>

definition tick ::
  "(arc \<Rightarrow> ball \<Rightarrow> bool) \<Rightarrow> state \<Rightarrow> rng \<Rightarrow> error + (state \<times> rng)" where
  "tick collide_mask s g =
     (let (ms, b) = Group_update_sprites (Sprite_speed_mult s) (all_sprites s) (ball s);
          s1 = s\<lparr>ball := b, all_sprites := ms,
                 particles := Group_update_particles (Sprite_speed_mult s) (particles s)\<rparr>
      in if length (all_sprites s1) > 1
            \<and> \<not> contains (member_circle (ball s1) (last (all_sprites s1))) (circle (ball s1))
         then (case last (all_sprites s1) of
                 BallRef \<Rightarrow> Inl AttributeError
               | ArcObj a \<Rightarrow> collision_step collide_mask a s1 g)
         else Inr (s1, g))"

section \<open>Example inputs\<close>

text \<open>Concrete sprites for the closed instances below: an arc centred at the origin and a ball.\<close>

abbreviation ex_arc :: "real \<Rightarrow> real \<Rightarrow> arc" where
  "ex_arc r t \<equiv> \<lparr>circle = \<lparr>center = (0, 0), radius = r\<rparr>, alive = True,
                  color = [200, 50, 30], speed = 1 / 64, angle = t\<rparr>"

abbreviation ex_ball :: "vec \<Rightarrow> real \<Rightarrow> vec \<Rightarrow> ball" where
  "ex_ball c r v \<equiv> \<lparr>circle = \<lparr>center = c, radius = r\<rparr>, alive = True, velocity = v\<rparr>"

text \<open>
  A particle as the constructor builds it from an explicit velocity, gravity and
  lifetime \<open>l\<close>, the way the mouse handler of the main loop calls it.
\<close>

abbreviation ex_particle :: "real \<Rightarrow> particle" where
  "ex_particle l \<equiv> \<lparr>circle = \<lparr>center = (0, 0), radius = 2\<rparr>, alive = True,
       p_velocity = (0, - 1), p_gravity = (0, 1 / 80), p_lifetime = l,
       p_color = \<lparr>red = 235, green = 113, blue = 20, alpha = 255\<rparr>\<rparr>"


text \<open>A state of the main loop with no particles, at the default speed multiplier.\<close>

abbreviation ex_state :: "ball \<Rightarrow> member list \<Rightarrow> state" where
  "ex_state b ms \<equiv> \<lparr>ball = b, all_sprites = ms, particles = [], destroy_on_collide = False,
                     Sprite_speed_mult = 1, screen_center = (0, 0)\<rparr>"

text \<open>The double nearest to \<open>0.8\<close>: the speed multiplier after two steps of the mouse wheel down.\<close>

abbreviation slow :: real where
  "slow \<equiv> 3602879701896397 / 4503599627370496"

section \<open>Facts about rounding\<close>

lemma round_even_of_int: "round_even (of_int n) = n"
  by (simp add: round_even_def)

lemma round_even_range: "\<lfloor>x\<rfloor> \<le> round_even x \<and> round_even x \<le> \<lfloor>x\<rfloor> + 1"
  by (simp add: round_even_def Let_def)

lemma round_even_mono:
  assumes "x \<le> y"
  shows "round_even x \<le> round_even y"
proof (cases "\<lfloor>x\<rfloor> = \<lfloor>y\<rfloor>")
  case True
  then show ?thesis using assms by (auto simp add: round_even_def Let_def)
next
  case False
  then have "\<lfloor>x\<rfloor> < \<lfloor>y\<rfloor>" using floor_mono [OF assms] by linarith
  then show ?thesis
    using round_even_range [of x] round_even_range [of y] by linarith
qed

lemma round_even_minus: "round_even (- x) = - round_even x"
proof (cases "x = of_int \<lfloor>x\<rfloor>")
  case True
  then obtain n where "x = of_int n" ..
  then show ?thesis
    using round_even_of_int [of n] round_even_of_int [of "- n"] by simp
next
  case False
  then have ni: "x \<noteq> of_int n" for n by (metis floor_of_int)
  then have f: "\<lfloor>- x\<rfloor> = - \<lfloor>x\<rfloor> - 1"
    by (simp add: floor_minus ceiling_altdef)
  have lt: "of_int \<lfloor>x\<rfloor> < x"
    using False of_int_floor_le [of x] by (metis order.not_eq_order_implies_strict)
  show ?thesis
    using lt by (auto simp add: round_even_def Let_def f)
qed


lemma p2_pos: "0 < (2::real) powr of_int e"
  by simp

lemma p2_add: "(2::real) powr of_int (a + b) = 2 powr of_int a * 2 powr of_int b"
  by (simp add: powr_add)

lemma p2_diff: "(2::real) powr of_int (a - b) = 2 powr of_int a / 2 powr of_int b"
  by (simp add: powr_diff)

lemma p2_nat: "0 \<le> n \<Longrightarrow> (2::real) powr of_int n = of_int (2 ^ nat n)"
  by (simp add: powr_int)

lemma p2_mono: "a \<le> b \<Longrightarrow> (2::real) powr of_int a \<le> 2 powr of_int b"
  by simp

lemma p2_less_cancel: "(2::real) powr of_int a < 2 powr of_int b \<Longrightarrow> a < b"
  by simp

lemma binade_bounds:
  assumes "x \<noteq> 0"
  shows "2 powr of_int \<lfloor>log 2 \<bar>x\<bar>\<rfloor> \<le> \<bar>x\<bar> \<and> \<bar>x\<bar> < 2 powr of_int (\<lfloor>log 2 \<bar>x\<bar>\<rfloor> + 1)"
  using floor_log_eq_powr_iff [of "\<bar>x\<bar>" 2 "\<lfloor>log 2 \<bar>x\<bar>\<rfloor>"] assms by simp

lemma binade_unique:
  assumes "2 powr of_int e \<le> \<bar>x\<bar>" "\<bar>x\<bar> < 2 powr of_int (e + 1)"
  shows "\<lfloor>log 2 \<bar>x\<bar>\<rfloor> = e"
proof -
  have "0 < \<bar>x\<bar>" using assms(1) p2_pos [of e] by linarith
  then show ?thesis
    using floor_log_eq_powr_iff [of "\<bar>x\<bar>" 2 e] assms by simp
qed

lemma fl_zero: "fl 0 = 0"
  by (simp add: fl_def)

lemma fl_minus: "fl (- x) = - fl x"
  by (simp add: fl_def fl_exp_def round_even_minus)

lemma fl_exp_ge: "- 1074 \<le> fl_exp x"
  by (simp add: fl_exp_def)

text \<open>The scaled value stays below \<open>2^53\<close>.\<close>

lemma fl_scaled_less:
  assumes "x \<noteq> 0"
  shows "\<bar>x\<bar> / 2 powr of_int (fl_exp x) < 2 ^ 53"
proof -
  have "\<bar>x\<bar> < 2 powr of_int (\<lfloor>log 2 \<bar>x\<bar>\<rfloor> + 1)"
    using binade_bounds [OF assms] by simp
  also have "\<dots> \<le> 2 powr of_int (fl_exp x + 53)"
    by (intro p2_mono) (simp add: fl_exp_def)
  also have "\<dots> = 2 powr of_int (fl_exp x) * 2 ^ 53"
    by (simp add: powr_add)
  finally show ?thesis
    by (simp add: pos_divide_less_eq mult.commute)
qed

lemma fl_scaled_ge:
  assumes "x \<noteq> 0" "- 1022 \<le> \<lfloor>log 2 \<bar>x\<bar>\<rfloor>"
  shows "2 ^ 52 \<le> \<bar>x\<bar> / 2 powr of_int (fl_exp x)"
proof -
  have e: "fl_exp x = \<lfloor>log 2 \<bar>x\<bar>\<rfloor> - 52" using assms(2) by (simp add: fl_exp_def)
  have "(2::real) powr of_int (fl_exp x) * 2 ^ 52 = 2 powr of_int (fl_exp x + 52)"
    by (simp add: powr_add)
  also have "\<dots> \<le> \<bar>x\<bar>" using binade_bounds [OF assms(1)] by (simp add: e)
  finally show ?thesis by (simp add: pos_le_divide_eq mult.commute)
qed


lemma fl_nonneg:
  assumes "0 \<le> x"
  shows "0 \<le> fl x"
proof (cases "x = 0")
  case True
  then show ?thesis by (simp add: fl_zero)
next
  case False
  have "0 \<le> x / 2 powr of_int (fl_exp x)" using assms by simp
  then have "round_even 0 \<le> round_even (x / 2 powr of_int (fl_exp x))"
    by (rule round_even_mono)
  then have "0 \<le> round_even (x / 2 powr of_int (fl_exp x))"
    using round_even_of_int [of 0] by simp
  then show ?thesis using False by (simp add: fl_def)
qed

lemma fl_upper:
  assumes "0 < x"
  shows "fl x \<le> 2 powr of_int (fl_exp x + 53)"
proof -
  have "x / 2 powr of_int (fl_exp x) \<le> 2 ^ 53"
    using fl_scaled_less [of x] assms by simp
  then have "round_even (x / 2 powr of_int (fl_exp x)) \<le> round_even (of_int (2 ^ 53))"
    by (intro round_even_mono) simp
  then have "round_even (x / 2 powr of_int (fl_exp x)) \<le> 2 ^ 53"
    by (simp only: round_even_of_int)
  then have "of_int (round_even (x / 2 powr of_int (fl_exp x))) \<le> (2 ^ 53 :: real)"
    by (metis of_int_le_iff of_int_numeral of_int_power)
  then have "fl x \<le> 2 powr of_int (fl_exp x) * 2 ^ 53"
    using assms by (simp add: fl_def)
  then show ?thesis by (simp add: powr_add)
qed

lemma fl_lower:
  assumes "0 < x" "- 1022 \<le> \<lfloor>log 2 \<bar>x\<bar>\<rfloor>"
  shows "2 powr of_int (fl_exp x + 52) \<le> fl x"
proof -
  have "2 ^ 52 \<le> x / 2 powr of_int (fl_exp x)"
    using fl_scaled_ge [of x] assms by simp
  then have "round_even (of_int (2 ^ 52)) \<le> round_even (x / 2 powr of_int (fl_exp x))"
    by (intro round_even_mono) simp
  then have "2 ^ 52 \<le> round_even (x / 2 powr of_int (fl_exp x))"
    by (simp only: round_even_of_int)
  then have "(2 ^ 52 :: real) \<le> of_int (round_even (x / 2 powr of_int (fl_exp x)))"
    by (metis of_int_le_iff of_int_numeral of_int_power)
  then have "2 powr of_int (fl_exp x) * 2 ^ 52 \<le> fl x"
    using assms by (simp add: fl_def)
  then show ?thesis by (simp add: powr_add)
qed

lemma fl_exp_mono:
  assumes "0 < x" "x \<le> y"
  shows "fl_exp x \<le> fl_exp y"
proof -
  have "log 2 \<bar>x\<bar> \<le> log 2 \<bar>y\<bar>" using assms by simp
  then have "\<lfloor>log 2 \<bar>x\<bar>\<rfloor> \<le> \<lfloor>log 2 \<bar>y\<bar>\<rfloor>" by (rule floor_mono)
  then show ?thesis by (simp add: fl_exp_def)
qed

lemma fl_mono_pos:
  assumes "0 < x" "x \<le> y"
  shows "fl x \<le> fl y"
proof (cases "fl_exp x = fl_exp y")
  case True
  have "x / 2 powr of_int (fl_exp y) \<le> y / 2 powr of_int (fl_exp y)"
    using assms by (simp add: divide_right_mono)
  then have "round_even (x / 2 powr of_int (fl_exp y)) \<le> round_even (y / 2 powr of_int (fl_exp y))"
    by (rule round_even_mono)
  then show ?thesis using assms True by (simp add: fl_def)
next
  case False
  then have lt: "fl_exp x < fl_exp y" using fl_exp_mono [OF assms] by simp
  define bx where "bx = \<lfloor>log 2 \<bar>x\<bar>\<rfloor>"
  define by' where "by' = \<lfloor>log 2 \<bar>y\<bar>\<rfloor>"
  have "max bx (- 1022) < max by' (- 1022)"
    using lt unfolding fl_exp_def bx_def by'_def by linarith
  then have "- 1022 \<le> by'" by linarith
  then have big: "- 1022 \<le> \<lfloor>log 2 \<bar>y\<bar>\<rfloor>" unfolding by'_def .
  have "fl x \<le> 2 powr of_int (fl_exp x + 53)" using assms by (intro fl_upper) simp
  also have "\<dots> \<le> 2 powr of_int (fl_exp y + 52)" using lt by (intro p2_mono) simp
  also have "\<dots> \<le> fl y" using assms big by (intro fl_lower) simp_all
  finally show ?thesis .
qed

lemma fl_mono:
  assumes "x \<le> y"
  shows "fl x \<le> fl y"
proof -
  consider "0 < x" | "x \<le> 0" "0 \<le> y" | "y < 0" by linarith
  then show ?thesis
  proof cases
    case 1
    then show ?thesis using assms by (rule fl_mono_pos)
  next
    case 2
    have "fl x \<le> 0" using fl_nonneg [of "- x"] 2 by (simp add: fl_minus)
    then show ?thesis using fl_nonneg [of y] 2 by simp
  next
    case 3
    have "fl (- y) \<le> fl (- x)" using assms 3 by (intro fl_mono_pos) simp_all
    then show ?thesis by (simp add: fl_minus)
  qed
qed

text \<open>Dyadic rationals with a mantissa below \<open>2^53\<close> are doubles: rounding keeps them.\<close>

lemma fl_dyadic:
  assumes k: "\<bar>k\<bar> < 2 ^ 53" and j: "- 1074 \<le> j"
  shows "fl (of_int k * 2 powr of_int j) = of_int k * 2 powr of_int j"
proof (cases "k = 0")
  case True
  then show ?thesis by (simp add: fl_zero)
next
  case False
  define x :: real where "x = of_int k * 2 powr of_int j"
  have xnz: "x \<noteq> 0" using False by (simp add: x_def)
  have "\<bar>x\<bar> = of_int \<bar>k\<bar> * 2 powr of_int j" by (simp add: x_def abs_mult)
  also have "\<dots> < 2 ^ 53 * 2 powr of_int j"
  proof -
    have "(of_int \<bar>k\<bar> :: real) < 2 ^ 53"
      using k by (metis of_int_less_iff of_int_numeral of_int_power)
    then show ?thesis by (intro mult_strict_right_mono) simp_all
  qed
  also have "\<dots> = 2 powr of_int (j + 53)" by (simp add: powr_add)
  finally have ub: "\<bar>x\<bar> < 2 powr of_int (j + 53)" .
  have "2 powr of_int \<lfloor>log 2 \<bar>x\<bar>\<rfloor> < (2::real) powr of_int (j + 53)"
    using binade_bounds [OF xnz] ub by linarith
  then have "\<lfloor>log 2 \<bar>x\<bar>\<rfloor> < j + 53" by (rule p2_less_cancel)
  then have t: "fl_exp x \<le> j" using j by (simp add: fl_exp_def)
  define n where "n = k * 2 ^ nat (j - fl_exp x)"
  have "x / 2 powr of_int (fl_exp x) = of_int k * 2 powr of_int (j - fl_exp x)"
    by (simp add: x_def powr_diff)
  also have "\<dots> = of_int n"
    using t p2_nat [of "j - fl_exp x"] by (simp add: n_def)
  finally have sc: "x / 2 powr of_int (fl_exp x) = of_int n" .
  then have "x = 2 powr of_int (fl_exp x) * of_int n"
    by (simp add: field_simps)
  moreover have "fl x = 2 powr of_int (fl_exp x) * of_int n"
    using xnz by (simp add: fl_def sc round_even_of_int)
  ultimately show ?thesis by (simp add: x_def)
qed

lemma fl_of_int:
  assumes "\<bar>n\<bar> < 2 ^ 53"
  shows "fl (of_int n) = of_int n"
  using fl_dyadic [OF assms, of 0] by simp

lemma fl_fl: "fl (fl x) = fl x"
proof (cases "x = 0")
  case True
  then show ?thesis by (simp add: fl_zero)
next
  case False
  define k where "k = round_even (x / 2 powr of_int (fl_exp x))"
  have flx: "fl x = of_int k * 2 powr of_int (fl_exp x)"
    using False by (simp add: fl_def k_def)
  define q where "q = x / 2 powr of_int (fl_exp x)"
  have sc: "\<bar>q\<bar> < 2 ^ 53"
    using fl_scaled_less [OF False] by (simp add: q_def)
  have "q \<le> of_int (2 ^ 53)" "of_int (- (2 ^ 53)) \<le> q"
    using sc by simp_all
  then have "round_even q \<le> round_even (of_int (2 ^ 53))"
    "round_even (of_int (- (2 ^ 53))) \<le> round_even q"
    by (simp_all only: round_even_mono)
  then have "round_even (x / 2 powr of_int (fl_exp x)) \<le> round_even (of_int (2 ^ 53))"
    "round_even (of_int (- (2 ^ 53))) \<le> round_even (x / 2 powr of_int (fl_exp x))"
    by (simp_all only: q_def)
  then have "k \<le> 2 ^ 53" "- (2 ^ 53) \<le> k"
    by (simp_all only: round_even_of_int k_def [symmetric])
  then have kb: "\<bar>k\<bar> \<le> 2 ^ 53" by linarith
  show ?thesis
  proof (cases "\<bar>k\<bar> = 2 ^ 53")
    case True
    have kk: "k = 2 ^ 53 \<or> k = - (2 ^ 53)" using True by linarith
    then have "k = (k div 2) * 2" by auto
    then have "(of_int k :: real) = of_int ((k div 2) * 2)" by simp
    then have "of_int k = (of_int (k div 2) :: real) * 2" by (simp only: of_int_mult of_int_numeral)
    then have "fl x = of_int (k div 2) * 2 powr of_int (fl_exp x + 1)"
      by (simp add: flx powr_add)
    moreover have "\<bar>k div 2\<bar> < 2 ^ 53" using kk by auto
    moreover have "- 1074 \<le> fl_exp x + 1" using fl_exp_ge [of x] by simp
    ultimately show ?thesis using fl_dyadic [of "k div 2" "fl_exp x + 1"] by simp
  next
    case ne: False
    then have "\<bar>k\<bar> < 2 ^ 53" using kb by simp
    then show ?thesis using fl_dyadic [of k "fl_exp x"] fl_exp_ge [of x] by (simp add: flx)
  qed
qed

text \<open>Rounding a value whose binade is known.\<close>

lemma fl_eval:
  assumes "- 1022 \<le> e" "2 powr of_int e \<le> \<bar>x\<bar>" "\<bar>x\<bar> < 2 powr of_int (e + 1)"
  shows "fl x = 2 powr of_int (e - 52) * of_int (round_even (x / 2 powr of_int (e - 52)))"
proof -
  have b: "\<lfloor>log 2 \<bar>x\<bar>\<rfloor> = e" using assms(2,3) by (rule binade_unique)
  have "x \<noteq> 0" using assms(2) p2_pos [of e] by auto
  then show ?thesis using assms(1) by (simp add: fl_def fl_exp_def b)
qed

section \<open>Facts about vectors\<close>

lemma vlength_nonneg: "0 \<le> vlength v"
  by (simp add: vlength_def)

lemma vlength_zero_iff: "vlength v = 0 \<longleftrightarrow> v = (0, 0)"
  by (cases v) (simp add: vlength_def sum_power2_eq_zero_iff)

lemma vlength_vscale: "vlength (vscale v k) = vlength v * \<bar>k\<bar>"
proof -
  have "(fst v * k)\<^sup>2 + (snd v * k)\<^sup>2 = ((fst v)\<^sup>2 + (snd v)\<^sup>2) * k\<^sup>2"
    by (simp add: power_mult_distrib algebra_simps)
  then show ?thesis
    by (simp add: vlength_def vscale_def real_sqrt_mult)
qed

lemma rotate_squares:
  fixes x y s c :: real
  shows "(x * c - y * s)\<^sup>2 + (x * s + y * c)\<^sup>2 = (x\<^sup>2 + y\<^sup>2) * (s\<^sup>2 + c\<^sup>2)"
  by (simp add: power2_eq_square algebra_simps)

lemma vlength_rotate_rad: "vlength (rotate_rad v t) = vlength v"
  by (simp add: vlength_def rotate_rad_def rotate_squares)

lemma normalize_unit:
  assumes "v \<noteq> (0, 0)"
  shows "\<exists>w. normalize v = Inr w \<and> vlength w = 1 \<and> w = vscale v (1 / vlength v)"
proof -
  have pos: "0 < vlength v"
    using assms vlength_zero_iff [of v] vlength_nonneg [of v] by linarith
  then have "vlength (vscale v (1 / vlength v)) = 1"
    by (simp add: vlength_vscale)
  then show ?thesis using assms by (simp add: normalize_def)
qed

lemma reflect_unit_length:
  fixes x y a b :: real
  assumes "a\<^sup>2 + b\<^sup>2 = 1"
  shows "(x + a * (- 2 * (x * a + y * b)))\<^sup>2 + (y + b * (- 2 * (x * a + y * b)))\<^sup>2 = x\<^sup>2 + y\<^sup>2"
proof -
  define d where "d = x * a + y * b"
  have "(x + a * (- 2 * d))\<^sup>2 + (y + b * (- 2 * d))\<^sup>2
        = x\<^sup>2 + y\<^sup>2 - 4 * d * (x * a + y * b) + 4 * d\<^sup>2 * (a\<^sup>2 + b\<^sup>2)"
    by (simp add: power2_eq_square algebra_simps)
  also have "\<dots> = x\<^sup>2 + y\<^sup>2" unfolding assms by (simp add: d_def power2_eq_square)
  finally show ?thesis by (simp add: d_def)
qed

lemma vreflect_length:
  assumes "n \<noteq> (0, 0)"
  shows "\<exists>w. vreflect v n = Inr w \<and> vlength w = vlength v"
proof -
  obtain n' where n': "normalize n = Inr n'" "vlength n' = 1" "n' = vscale n (1 / vlength n)"
    using normalize_unit [OF assms] by blast
  have "(fst n')\<^sup>2 + (snd n')\<^sup>2 = 1"
    using n'(2) by (simp add: vlength_def)
  then have "vlength (vadd v (vscale n' (- 2 * vdot v n'))) = vlength v"
    using reflect_unit_length [of "fst n'" "snd n'" "fst v" "snd v"]
    by (simp add: vlength_def vadd_def vscale_def vdot_def)
  then show ?thesis using assms n'(3) by (simp add: vreflect_def Let_def)
qed

lemma vlength_vsub_commute: "vlength (vsub v w) = vlength (vsub w v)"
  by (simp add: vlength_def vsub_def power2_commute)

lemma vlength_axis: "vlength (0, y) = \<bar>y\<bar>"
  by (simp add: vlength_def)

section \<open>Facts about the float remainder and concrete roundings\<close>

lemma two_pi_val: "2 * math_pi = 884279719003555 / 140737488355328"
  by (simp add: math_pi_def)

lemma pymod_zero: "y \<noteq> 0 \<Longrightarrow> pymod 0 y = 0"
  by (simp add: pymod_def py_int_def)

lemma pymod_self: "y \<noteq> 0 \<Longrightarrow> pymod y y = 0"
  by (simp add: pymod_def py_int_def)


lemma r1: "fl (884279719003555 / 140737488355328 - 3) = 462067253937571 / 140737488355328"
  using fl_dyadic [of 462067253937571 "- 47"] by (simp add: powr_neg_numeral)

lemma r2: "fl (462067253937571 / 140737488355328 * (1 - 1 / 2 ^ 53))
             = 7393076063001135 / 2251799813685248"
  using fl_eval [of 1 "462067253937571 / 140737488355328 * (1 - 1 / 2 ^ 53)"]
  by (simp add: round_even_def powr_neg_numeral)

lemma r3: "fl (3 + 7393076063001135 / 2251799813685248) = 884279719003555 / 140737488355328"
  using fl_eval [of 2 "3 + 7393076063001135 / 2251799813685248"]
  by (simp add: round_even_def powr_neg_numeral)


lemma r3': "fl (14148475504056879 / 2251799813685248) = 884279719003555 / 140737488355328"
  using r3 by simp

lemma r0: "fl 3 = 3"
  using fl_of_int [of 3] by simp

lemma r1': "fl (462067253937571 / 140737488355328) = 462067253937571 / 140737488355328"
  using fl_dyadic [of 462067253937571 "- 47"] by (simp add: powr_neg_numeral)

lemma r2': "fl (7393076063001135 / 2251799813685248) = 7393076063001135 / 2251799813685248"
  using fl_dyadic [of 7393076063001135 "- 51"] by (simp add: powr_neg_numeral)



section \<open>Sampling outside the cut\<close>

text \<open>
  C4. For every start value and every length in \<open>(0, 2\<pi>)\<close>, every angle returned by
  \<open>random_angle_with_cut\<close> lies outside the cut \<open>[start, start + length)\<close> taken
  \<open>mod 2\<pi>\<close>. The code breaks this where rounding carries the sampled angle onto \<open>2\<pi>\<close>:
  for start \<open>0.0\<close>, length \<open>3.0\<close> and the largest draw of \<open>random()\<close>, \<open>1 - 2^-53\<close>, the
  sum \<open>end + random_value\<close> rounds to \<open>2 * math.pi\<close> and the remainder returned is \<open>0.0\<close>,
  the start of the cut \<open>[0, 3)\<close>.
\<close>

theorem random_angle_with_cut_inside_cut:
  "random_angle_with_cut 0 3 (\<lambda>n. 1 - 1 / 2 ^ 53) = Inr (0, \<lambda>n. 1 - 1 / 2 ^ 53)
   \<and> (0::real) \<le> 0 \<and> (0::real) < 0 + 3"
proof -
  define g :: rng where "g = (\<lambda>n. 1 - 1 / 2 ^ 53)"
  have g: "random g = (1 - 1 / 2 ^ 53, g)" by (simp add: random_def g_def)
  have u: "uniform 0 (462067253937571 / 140737488355328) g
             = (7393076063001135 / 2251799813685248, g)"
    unfolding uniform_def g using r2 by (simp add: r1' r2' fl_fl)
  have "random_angle_with_cut 0 3 g = Inr (0, g)"
    unfolding random_angle_with_cut_def two_pi_val
    by (simp add: pymod_zero pymod_self r0 r1 r1' r2' r3' u Let_def)
  then show ?thesis by (simp add: g_def)
qed

text \<open>
  C6. \<open>random_angle_with_cut\<close> fails exactly when the length is not positive or is at
  least \<open>2\<pi>\<close>, the program's \<open>2 * pi\<close>; for every length in \<open>(0, 2\<pi>)\<close> it returns.
\<close>

theorem random_angle_with_cut_fails_iff:
  "(\<exists>e. random_angle_with_cut start len g = Inl e) = (len \<le> 0 \<or> 2 * math_pi \<le> len)"
  by (auto simp add: random_angle_with_cut_def Let_def split: prod.splits)

section \<open>Collision and reflection\<close>

text \<open>
  C1, as amended. For every arc and every ball with a nonzero velocity, \<open>collide_ball\<close>
  returns, leaves the velocity as it was and displaces the ball along its normalised
  velocity by \<open>R_a - r_b - d\<close>, where \<open>d\<close> is the distance of the two centres before the
  call. When \<open>R_a > r_b\<close> and the velocity points radially outward, from the arc's centre
  through the ball's, the ball's centre ends at distance exactly \<open>R_a - r_b\<close> from the
  arc's centre.
\<close>

theorem collide_ball_displaces:
  assumes vnz: "velocity b \<noteq> (0, 0)"
  shows "\<exists>vn b'. normalize (velocity b) = Inr vn
           \<and> collide_ball collide_mask a b = Inr (collide_mask a b', b')
           \<and> velocity b' = velocity b
           \<and> center (circle b') =
               vadd (center (circle b))
                 (vscale vn (radius (circle a) - radius (circle b)
                              - vlength (vsub (center (circle a)) (center (circle b)))))
           \<and> (radius (circle b) < radius (circle a) \<and> 0 < k
                \<and> velocity b = vscale (vsub (center (circle b)) (center (circle a))) k
               \<longrightarrow> vlength (vsub (center (circle b')) (center (circle a)))
                     = radius (circle a) - radius (circle b))"
proof -
  define w where "w = vsub (center (circle b)) (center (circle a))"
  define d where "d = vlength w"
  define A where "A = radius (circle a) - radius (circle b)"
  obtain vn where nv: "normalize (velocity b) = Inr vn"
    and vn: "vn = vscale (velocity b) (1 / vlength (velocity b))"
    using normalize_unit [OF vnz] by blast
  have len: "sqrt ((fst (center (circle a)) - fst (center (circle b)))\<^sup>2
               + (snd (center (circle a)) - snd (center (circle b)))\<^sup>2) = d"
    by (simp add: d_def w_def vlength_def vsub_def power2_commute)
  have len': "vlength (vsub (center (circle a)) (center (circle b))) = d"
    by (simp add: d_def w_def vlength_vsub_commute)
  define b' where "b' = b\<lparr>circle := move_ip (circle b) (vscale vn (A - d))\<rparr>"
  have run: "collide_ball collide_mask a b = Inr (collide_mask a b', b')"
    by (simp add: collide_ball_def Let_def nv len b'_def A_def)
  have vel: "velocity b' = velocity b" by (simp add: b'_def)
  have ctr: "center (circle b') = vadd (center (circle b)) (vscale vn (A - d))"
    by (simp add: b'_def move_ip_def)
  have dist: "vlength (vsub (center (circle b')) (center (circle a))) = A"
    if R: "radius (circle b) < radius (circle a)" and k: "0 < k"
      and v: "velocity b = vscale w k"
  proof -
    have wnz: "w \<noteq> (0, 0)"
      using vnz v by (auto simp add: vscale_def)
    have dpos: "0 < d"
      using wnz vlength_zero_iff [of w] vlength_nonneg [of w] by (simp add: d_def)
    have vlen: "vlength (velocity b) = d * k"
      using k by (simp add: v vlength_vscale d_def)
    have "vscale (velocity b) (1 / (d * k)) = vscale w (1 / d)"
      using k dpos by (simp add: v vscale_def)
    then have vn': "vn = vscale w (1 / d)" by (simp only: vn vlen)
    have "vsub (center (circle b')) (center (circle a)) = vscale w (A / d)"
      using dpos
      by (simp add: ctr vn' w_def vsub_def vadd_def vscale_def field_simps)
    then have "vlength (vsub (center (circle b')) (center (circle a))) = d * \<bar>A / d\<bar>"
      by (simp add: vlength_vscale d_def)
    also have "\<dots> = A" using dpos R by (simp add: A_def)
    finally show ?thesis .
  qed
  show ?thesis
    using nv run vel ctr dist by (auto simp add: len' A_def w_def)
qed

theorem collide_ball_displaces_witness:
  "velocity (ex_ball (6, 8) 5 (3, 4)) \<noteq> (0, 0)
   \<and> (\<exists>vn b'. normalize (3, 4) = Inr vn
         \<and> collide_ball (\<lambda>a b. True) (ex_arc 14 1) (ex_ball (6, 8) 5 (3, 4)) = Inr (True, b')
         \<and> center (circle b') = vadd (6, 8) (vscale vn (14 - 5 - vlength (vsub (0, 0) (6, 8))))
         \<and> vlength (vsub (center (circle b')) (0, 0)) = 14 - 5)"
  using collide_ball_displaces [of "ex_ball (6, 8) 5 (3, 4)" "\<lambda>a b. True" "ex_arc 14 1" "1 / 2"]
  by (simp add: vscale_def vsub_def) blast

text \<open>
  C1 as stated fails when the velocity is not radial: an arc of radius 14 at the origin,
  a ball of radius 5 at \<open>(12, 16)\<close> moving along \<open>(0, 1)\<close>. The ball ends at \<open>(12, 5)\<close>, at
  distance 13 from the arc's centre, not \<open>14 - 5 = 9\<close>.
\<close>

theorem collide_ball_off_boundary:
  "collide_ball (\<lambda>a b. True) (ex_arc 14 1) (ex_ball (12, 16) 5 (0, 1))
     = Inr (True, ex_ball (12, 5) 5 (0, 1))
   \<and> vlength (vsub (12, 5) (0, 0)) = 13
   \<and> radius (circle (ex_arc 14 1)) - radius (circle (ex_ball (12, 16) 5 (0, 1))) = 9"
proof -
  have a: "sqrt 400 = 20" using real_sqrt_abs2 [of 20] by simp
  have b: "sqrt 169 = 13" using real_sqrt_abs2 [of 13] by simp
  show ?thesis
    by (simp add: collide_ball_def normalize_def Let_def vscale_def vlength_def
          move_ip_def vadd_def vsub_def a b)
qed

text \<open>
  C7. For every arc and every ball whose velocity is the zero vector, \<open>collide_ball\<close>
  fails with the error of \<open>normalize\<close> and returns no Boolean.
\<close>

theorem collide_ball_zero_velocity:
  assumes "velocity b = (0, 0)"
  shows "collide_ball collide_mask a b = Inl ValueError"
  using assms by (simp add: collide_ball_def normalize_def Let_def)

theorem collide_ball_zero_velocity_witness:
  "velocity (ex_ball (12, 16) 5 (0, 0)) = (0, 0)
   \<and> collide_ball (\<lambda>a b. True) (ex_arc 14 1) (ex_ball (12, 16) 5 (0, 0)) = Inl ValueError"
  using collide_ball_zero_velocity [of "ex_ball (12, 16) 5 (0, 0)" "\<lambda>a b. True" "ex_arc 14 1"]
  by simp

text \<open>
  C8. For every ball with a nonzero velocity and every circle whose centre differs from
  the ball's, \<open>reflect\<close> returns, and the ball's speed (the Euclidean norm of its
  velocity) is unchanged, whatever jitter angle the random source draws.
\<close>

theorem reflect_preserves_speed:
  assumes "velocity b \<noteq> (0, 0)" "center c \<noteq> center (circle b)"
  shows "\<exists>b' g'. reflect b c g = Inr (b', g') \<and> vlength (velocity b') = vlength (velocity b)"
proof -
  define dx where "dx = fst (center c) - fst (center (circle b))"
  define dy where "dy = snd (center c) - snd (center (circle b))"
  have "(dx, dy) \<noteq> (0, 0)"
    using assms(2) by (auto simp add: dx_def dy_def prod_eq_iff)
  then obtain normal where nn: "normalize (dx, dy) = Inr normal" "vlength normal = 1"
    using normalize_unit by blast
  obtain vn where vn: "normalize (velocity b) = Inr vn"
    using normalize_unit [OF assms(1)] by blast
  define ang where "ang = (g 0 - 1 / 2) * BALL_REFLECT_ANGLE"
  have "vlength (rotate normal ang) = 1"
    using nn(2) by (simp add: rotate_def vlength_rotate_rad)
  then have "rotate normal ang \<noteq> (0, 0)"
    using vlength_zero_iff [of "rotate normal ang"] by auto
  then obtain w where w: "vreflect (velocity b) (rotate normal ang) = Inr w"
      "vlength w = vlength (velocity b)"
    using vreflect_length by blast
  show ?thesis
    using nn(1) vn w
    by (simp add: reflect_def Let_def random_def dx_def dy_def ang_def)
qed

theorem reflect_preserves_speed_witness:
  "velocity (ex_ball (0, 0) 1 (3, 4)) \<noteq> (0, 0)
   \<and> center \<lparr>center = (10, 0), radius = 5\<rparr> \<noteq> center (circle (ex_ball (0, 0) 1 (3, 4)))
   \<and> (\<exists>b' g'. reflect (ex_ball (0, 0) 1 (3, 4)) \<lparr>center = (10, 0), radius = 5\<rparr> (\<lambda>n. 1 / 2)
                 = Inr (b', g')
         \<and> vlength (velocity b') = vlength (velocity (ex_ball (0, 0) 1 (3, 4))))"
  using reflect_preserves_speed
    [of "ex_ball (0, 0) 1 (3, 4)" "\<lparr>center = (10, 0), radius = 5\<rparr>" "\<lambda>n. 1 / 2"]
  by simp

section \<open>The arc constructor\<close>






section \<open>Particles\<close>

lemma Particle_update_lifetime: "p_lifetime (Particle_update m p) = fl (p_lifetime p - m)"
  by (simp add: Particle_update_def Let_def kill_def)

lemma Particle_update_alpha:
  "alpha (p_color (Particle_update m p))
     = py_int (max (min (fl (fl (255 * p_lifetime (Particle_update m p)) / PARTICLE_LIFETIME))
                      255) 0)"
  by (simp add: Particle_update_def Let_def kill_def)

lemma Particle_update_alive:
  "alive (Particle_update m p) = (alive p \<and> 0 < p_lifetime (Particle_update m p))"
  by (auto simp add: Particle_update_def Let_def kill_def)

lemma Particle_updates_snoc:
  "Particle_updates (ms @ [m]) p = Particle_update m (Particle_updates ms p)"
  by (induction ms arbitrary: p) simp_all

lemma fade_mono:
  assumes "x \<le> y"
  shows "py_int (max (min (fl (fl (255 * x) / PARTICLE_LIFETIME)) 255) 0)
           \<le> py_int (max (min (fl (fl (255 * y) / PARTICLE_LIFETIME)) 255) 0)"
proof -
  have "fl (255 * x) \<le> fl (255 * y)" using assms by (intro fl_mono) simp
  then have "fl (fl (255 * x) / PARTICLE_LIFETIME) \<le> fl (fl (255 * y) / PARTICLE_LIFETIME)"
    by (intro fl_mono) (simp add: PARTICLE_LIFETIME_def)
  then have "max (min (fl (fl (255 * x) / PARTICLE_LIFETIME)) 255) 0
               \<le> max (min (fl (fl (255 * y) / PARTICLE_LIFETIME)) 255) 0"
    by (simp add: max_def min_def)
  then show ?thesis by (simp add: py_int_def floor_mono)
qed

lemma fade_bounds:
  "0 \<le> py_int (max (min x 255) 0) \<and> py_int (max (min x 255) 0) \<le> 255"
proof -
  have "max (min x 255) 0 \<le> 255" by simp
  then have "\<lfloor>max (min x 255) 0\<rfloor> \<le> 255"
    by (simp add: floor_le_iff)
  then show ?thesis by (simp add: py_int_def)
qed

lemma fade_out:
  assumes "x \<le> 0"
  shows "py_int (max (min (fl (fl (255 * x) / PARTICLE_LIFETIME)) 255) 0) = 0"
proof -
  have "fl (255 * x) \<le> fl 0" using assms by (intro fl_mono) simp
  then have "fl (255 * x) / PARTICLE_LIFETIME \<le> 0"
    by (simp add: fl_zero PARTICLE_LIFETIME_def)
  then have "fl (fl (255 * x) / PARTICLE_LIFETIME) \<le> fl 0" by (rule fl_mono)
  then have "max (min (fl (fl (255 * x) / PARTICLE_LIFETIME)) 255) 0 = 0"
    by (simp add: fl_zero)
  then show ?thesis by (simp add: py_int_def)
qed

lemma Particle_init_fields:
  assumes "Particle_init ctr col rad vel grav life g = Inr (p, g')"
  shows "p_lifetime p = (if life \<noteq> None \<and> life \<noteq> Some 0 then the life else PARTICLE_LIFETIME)"
    and "alpha (p_color p) = 255" and "alive p"
  using assms
  by (auto simp add: Particle_init_def Let_def Sprite_init_def
        split: sum.splits prod.splits if_splits)

lemma fl_4: "fl 4 = 4"
  using fl_of_int [of 4] by simp

lemma ex_particle_init:
  "l \<noteq> 0 \<Longrightarrow> Particle_init (0, 0) [235, 113, 20] 2 (Some (0, - 1)) (Some (0, 1 / 80)) (Some l) g
     = Inr (ex_particle l, g)"
  by (simp add: Particle_init_def Let_def Color_def Sprite_init_def Surface_def vec_truthy_def
        fl_4 py_int_def)

lemma slow_1: "fl (176541105392923443 / 4503599627370496) = 2758454771764429 / 70368744177664"
  using fl_eval [of 5 "176541105392923443 / 4503599627370496"]
  by (simp add: round_even_def powr_neg_numeral)

lemma slow_2: "fl (172938225691027059 / 4503599627370496) = 1351079888211149 / 35184372088832"
  using fl_eval [of 5 "172938225691027059 / 4503599627370496"]
  by (simp add: round_even_def powr_neg_numeral)

lemma slow_3: "fl (169335345989130675 / 4503599627370496) = 2645864781080167 / 70368744177664"
  using fl_eval [of 5 "169335345989130675 / 4503599627370496"]
  by (simp add: round_even_def powr_neg_numeral)

lemma slow_4: "fl (165732466287234291 / 4503599627370496) = 647392446434509 / 17592186044416"
  using fl_eval [of 5 "165732466287234291 / 4503599627370496"]
  by (simp add: round_even_def powr_neg_numeral)

lemma slow_5: "fl (162129586585337907 / 4503599627370496) = 2533274790395905 / 70368744177664"
  using fl_eval [of 5 "162129586585337907 / 4503599627370496"]
  by (simp add: round_even_def powr_neg_numeral)

lemma slow_6: "fl (158526706883441523 / 4503599627370496) = 1238489897526887 / 35184372088832"
  using fl_eval [of 5 "158526706883441523 / 4503599627370496"]
  by (simp add: round_even_def powr_neg_numeral)

lemma slow_7: "fl (154923827181545139 / 4503599627370496) = 2420684799711643 / 70368744177664"
  using fl_eval [of 5 "154923827181545139 / 4503599627370496"]
  by (simp add: round_even_def powr_neg_numeral)

lemma slow_8: "fl (151320947479648755 / 4503599627370496) = 295548725546189 / 8796093022208"
  using fl_eval [of 5 "151320947479648755 / 4503599627370496"]
  by (simp add: round_even_def powr_neg_numeral)

lemma slow_9: "fl (147718067777752371 / 4503599627370496) = 2308094809027381 / 70368744177664"
  using fl_eval [of 5 "147718067777752371 / 4503599627370496"]
  by (simp add: round_even_def powr_neg_numeral)

lemma slow_10: "fl (144115188075855987 / 4503599627370496) = 1125899906842625 / 35184372088832"
  using fl_eval [of 5 "144115188075855987 / 4503599627370496"]
  by (simp add: round_even_def powr_neg_numeral)

lemma slow_mul: "fl (287104476244869375 / 35184372088832) = 1121501860331521 / 137438953472"
  using fl_eval [of 12 "287104476244869375 / 35184372088832"]
  by (simp add: round_even_def powr_neg_numeral)

lemma slow_div: "fl (1121501860331521 / 5497558138880) = 3588805953060867 / 17592186044416"
  using fl_eval [of 7 "1121501860331521 / 5497558138880"]
  by (simp add: round_even_def powr_neg_numeral)

lemma Particle_updates_lifetime:
  "p_lifetime (Particle_updates ms p) = foldl (\<lambda>l m. fl (l - m)) (p_lifetime p) ms"
  by (induction ms arbitrary: p) (simp_all add: Particle_update_lifetime)


lemma slow_lifetime:
  "p_lifetime (Particle_updates ([slow, slow, slow, slow, slow, slow, slow, slow, slow] @ [slow])
       (ex_particle 40)) = 1125899906842625 / 35184372088832"
  unfolding Particle_updates_lifetime
  by (simp add: slow_1 slow_2 slow_3 slow_4 slow_5 slow_6 slow_7 slow_8 slow_9 slow_10)

text \<open>
  C3, as amended. For every particle, whatever lifetime it was constructed with, after
  each update its alpha channel is \<open>255 * remaining lifetime / PARTICLE_LIFETIME\<close> in
  float arithmetic, clamped to \<open>[0, 255]\<close> and truncated to an integer: the divisor is the
  constant 40, the default lifetime, not the particle's own initial lifetime. The
  remaining lifetime is the stored one: the lifetime before the update less the speed
  multiplier, rounded to a double.
\<close>

theorem particle_alpha_after_updates:
  assumes "Particle_init ctr col rad vel grav life g = Inr (p, g')"
  shows "p_lifetime p = (if life \<noteq> None \<and> life \<noteq> Some 0 then the life else PARTICLE_LIFETIME)
         \<and> p_lifetime (Particle_updates (ms @ [m]) p)
             = fl (p_lifetime (Particle_updates ms p) - m)
         \<and> alpha (p_color (Particle_updates (ms @ [m]) p))
             = py_int (max (min (fl (fl (255 * p_lifetime (Particle_updates (ms @ [m]) p))
                                       / PARTICLE_LIFETIME)) 255) 0)
         \<and> 0 \<le> alpha (p_color (Particle_updates (ms @ [m]) p))
         \<and> alpha (p_color (Particle_updates (ms @ [m]) p)) \<le> 255"
proof -
  have a: "alpha (p_color (Particle_updates (ms @ [m]) p))
             = py_int (max (min (fl (fl (255 * p_lifetime (Particle_updates (ms @ [m]) p))
                                       / PARTICLE_LIFETIME)) 255) 0)"
    unfolding Particle_updates_snoc by (rule Particle_update_alpha)
  have b: "0 \<le> alpha (p_color (Particle_updates (ms @ [m]) p))
         \<and> alpha (p_color (Particle_updates (ms @ [m]) p)) \<le> 255"
    unfolding a by (rule fade_bounds)
  show ?thesis
    using Particle_init_fields(1) [OF assms] a b
    by (simp add: Particle_updates_snoc Particle_update_lifetime)
qed

text \<open>
  An instance in slow motion: ten updates at the speed multiplier \<open>0.8\<close> leave a particle
  of lifetime 40 with the lifetime \<open>32.00000000000003\<close> and the alpha 204.
\<close>

theorem particle_alpha_after_updates_witness:
  "p_lifetime (Particle_updates ([slow, slow, slow, slow, slow, slow, slow, slow, slow] @ [slow])
       (ex_particle 40)) = 1125899906842625 / 35184372088832
   \<and> alpha (p_color (Particle_updates
         ([slow, slow, slow, slow, slow, slow, slow, slow, slow] @ [slow]) (ex_particle 40)))
       = 204"
proof -
  have init: "Particle_init (0, 0) [235, 113, 20] 2 (Some (0, - 1)) (Some (0, 1 / 80)) (Some 40)
                (\<lambda>n. 0) = Inr (ex_particle 40, \<lambda>n. 0)"
    by (simp add: ex_particle_init)
  have "alpha (p_color (Particle_updates
         ([slow, slow, slow, slow, slow, slow, slow, slow, slow] @ [slow]) (ex_particle 40)))
       = py_int (max (min (fl (fl (255 * (1125899906842625 / 35184372088832))
                                 / PARTICLE_LIFETIME)) 255) 0)"
    using particle_alpha_after_updates [OF init, of "[slow, slow, slow, slow, slow, slow, slow, slow, slow]" slow]
    unfolding slow_lifetime by blast
  also have "\<dots> = 204"
    by (simp add: slow_mul slow_div PARTICLE_LIFETIME_def py_int_def)
  finally show ?thesis using slow_lifetime by simp
qed

lemma fl_59: "fl 59 = 59"
  using fl_of_int [of 59] by simp

lemma fl_15045: "fl 15045 = 15045"
  using fl_of_int [of 15045] by simp

lemma fl_3009_8: "fl (3009 / 8) = 3009 / 8"
  using fl_dyadic [of 3009 "- 3"] by (simp add: powr_neg_numeral)

text \<open>
  C3 as stated fails for a particle built with lifetime 60: after one update at speed
  multiplier 1 its remaining lifetime is 59 and its alpha is 255, while
  \<open>255 * 59 / 60\<close> is \<open>250.75\<close>.
\<close>

theorem particle_alpha_long_lifetime:
  "Particle_init (0, 0) [235, 113, 20] 2 (Some (0, - 1)) (Some (0, 1 / 80)) (Some 60) (\<lambda>n. 0)
     = Inr (ex_particle 60, \<lambda>n. 0)
   \<and> p_lifetime (Particle_update 1 (ex_particle 60)) = 59
   \<and> alpha (p_color (Particle_update 1 (ex_particle 60))) = 255
   \<and> max (min (255 * (59 / 60)) 255) 0 = (1003 / 4 :: real)"
  by (simp add: ex_particle_init Particle_update_alpha Particle_update_lifetime
        PARTICLE_LIFETIME_def py_int_def fl_59 fl_15045 fl_3009_8)

text \<open>Lifetimes that count down below an integer bound.\<close>

lemma countdown_step:
  assumes l: "l \<le> of_int (max n 0)" and m: "1 \<le> m" and n: "n \<le> 2 ^ 53"
  shows "fl (l - m) \<le> of_int (max (n - 1) 0)"
proof (cases "1 \<le> n")
  case True
  have "l - m \<le> of_int (n - 1)" using l m True by simp
  then have "fl (l - m) \<le> fl (of_int (n - 1))" by (rule fl_mono)
  also have "\<dots> = of_int (n - 1)" using True n by (intro fl_of_int) simp
  finally show ?thesis using True by simp
next
  case False
  then have "l - m \<le> 0" using l m by simp
  then have "fl (l - m) \<le> fl 0" by (rule fl_mono)
  then show ?thesis using False by (simp add: fl_zero)
qed

lemma countdown:
  assumes "p_lifetime p \<le> of_int n" "n \<le> 2 ^ 53" "list_all (\<lambda>m. 1 \<le> m) ms"
  shows "p_lifetime (Particle_updates ms p) \<le> of_int (max (n - int (length ms)) 0)"
  using assms(3)
proof (induction ms rule: rev_induct)
  case Nil
  then show ?case using assms(1) by simp
next
  case (snoc m ms)
  have ih: "p_lifetime (Particle_updates ms p) \<le> of_int (max (n - int (length ms)) 0)"
    using snoc by simp
  have m: "1 \<le> m" using snoc.prems by simp
  have "fl (p_lifetime (Particle_updates ms p) - m) \<le> of_int (max (n - int (length ms) - 1) 0)"
    using ih m assms(2) by (intro countdown_step) simp_all
  then show ?case
    by (simp add: Particle_updates_snoc Particle_update_lifetime algebra_simps)
qed

text \<open>
  C9, as amended. For every particle and every sequence of updates, a further update
  with a speed multiplier \<open>m \<ge> 0\<close> does not increase the alpha; and while the speed
  multiplier is 1 (the default) or more at every update, a particle of initial lifetime
  up to \<open>2^53\<close> has alpha exactly 0 and is dead after any number of updates that is at
  least its initial lifetime. In slow motion it lives longer.
\<close>

theorem particle_fades_and_dies:
  assumes init: "Particle_init ctr col rad vel grav life g = Inr (p, g')"
    and m: "0 \<le> m"
  shows "alpha (p_color (Particle_updates (ms @ [m]) p)) \<le> alpha (p_color (Particle_updates ms p))
         \<and> (list_all (\<lambda>x. 1 \<le> x) (ms @ [m]) \<and> p_lifetime p \<le> 2 ^ 53
              \<and> p_lifetime p \<le> of_nat (length (ms @ [m])) \<longrightarrow>
              alpha (p_color (Particle_updates (ms @ [m]) p)) = 0
              \<and> \<not> alive (Particle_updates (ms @ [m]) p))"
proof -
  have al: "alpha (p_color (Particle_updates (ns @ [n]) p))
              = py_int (max (min (fl (fl (255 * p_lifetime (Particle_updates (ns @ [n]) p))
                                        / PARTICLE_LIFETIME)) 255) 0)" for ns n
    unfolding Particle_updates_snoc by (rule Particle_update_alpha)
  have mono: "alpha (p_color (Particle_updates (ms @ [m]) p)) \<le> alpha (p_color (Particle_updates ms p))"
  proof (cases ms rule: rev_cases)
    case Nil
    have "alpha (p_color (Particle_updates ([] @ [m]) p)) \<le> 255"
      unfolding al using fade_bounds by blast
    then show ?thesis
      using Particle_init_fields(2) [OF init] by (simp add: Nil)
  next
    case (snoc ns n)
    define l where "l = p_lifetime (Particle_updates ms p)"
    have dbl: "fl l = l"
      by (simp add: l_def snoc Particle_updates_snoc Particle_update_lifetime fl_fl)
    have "fl (l - m) \<le> fl l" using m by (intro fl_mono) simp
    then have "p_lifetime (Particle_updates (ms @ [m]) p) \<le> p_lifetime (Particle_updates ms p)"
      by (simp add: Particle_updates_snoc Particle_update_lifetime l_def [symmetric] dbl)
    then show ?thesis
      unfolding al unfolding snoc al by (rule fade_mono)
  qed
  have dead: "alpha (p_color (Particle_updates (ms @ [m]) p)) = 0
              \<and> \<not> alive (Particle_updates (ms @ [m]) p)"
    if ge: "list_all (\<lambda>x. 1 \<le> x) (ms @ [m])" and big: "p_lifetime p \<le> 2 ^ 53"
      and n: "p_lifetime p \<le> of_nat (length (ms @ [m]))"
  proof -
    define N where "N = \<lceil>p_lifetime p\<rceil>"
    have N1: "p_lifetime p \<le> of_int N" by (simp add: N_def)
    have N2: "N \<le> 2 ^ 53" using big by (simp add: N_def ceiling_le_iff)
    have N3: "N \<le> int (length (ms @ [m]))" using n by (simp add: N_def ceiling_le_iff)
    have "p_lifetime (Particle_updates (ms @ [m]) p)
            \<le> of_int (max (N - int (length (ms @ [m]))) 0)"
      using N1 N2 ge by (rule countdown)
    then have le: "p_lifetime (Particle_updates (ms @ [m]) p) \<le> 0" using N3 by simp
    have "\<not> alive (Particle_updates (ms @ [m]) p)"
      using le unfolding Particle_updates_snoc by (simp add: Particle_update_alive)
    then show ?thesis unfolding al using fade_out [OF le] by simp
  qed
  from mono dead show ?thesis by blast
qed

theorem particle_fades_and_dies_witness:
  "(0::real) \<le> 1
   \<and> alpha (p_color (Particle_updates ([1] @ [1]) (ex_particle 2)))
       \<le> alpha (p_color (Particle_updates [1] (ex_particle 2)))
   \<and> alpha (p_color (Particle_updates ([1] @ [1]) (ex_particle 2))) = 0
   \<and> \<not> alive (Particle_updates ([1] @ [1]) (ex_particle 2))"
  using particle_fades_and_dies [of "(0, 0)" "[235, 113, 20]" 2 "Some (0, - 1)" "Some (0, 1 / 80)" "Some 2" "\<lambda>n. 0"
             "ex_particle 2" "\<lambda>n. 0" 1 "[1]"]
  by (simp add: ex_particle_init)

lemma fl_half_int:
  assumes "\<bar>k\<bar> < 2 ^ 53"
  shows "fl (of_int k / 2) = of_int k / 2"
  using fl_dyadic [of k "- 1"] assms by (simp add: powr_minus field_simps)

lemma half_speed_run:
  assumes "n \<le> 79"
  shows "p_lifetime (Particle_updates (replicate n (1 / 2)) (ex_particle 40))
           = of_int (80 - int n) / 2
         \<and> alive (Particle_updates (replicate n (1 / 2)) (ex_particle 40))"
  using assms
proof (induction n)
  case 0
  then show ?case by simp
next
  case (Suc n)
  have ih: "p_lifetime (Particle_updates (replicate n (1 / 2)) (ex_particle 40))
              = of_int (80 - int n) / 2"
    "alive (Particle_updates (replicate n (1 / 2)) (ex_particle 40))"
    using Suc by simp_all
  have r: "replicate (Suc n) (1 / 2 :: real) = replicate n (1 / 2) @ [1 / 2]"
    by (simp only: replicate_Suc replicate_append_same)
  have "of_int (80 - int n) / 2 - 1 / 2 = (of_int (79 - int n) / 2 :: real)" by simp
  then have "fl (of_int (80 - int n) / 2 - 1 / 2) = of_int (79 - int n) / 2"
    using fl_half_int [of "79 - int n"] Suc.prems by (simp only:) simp
  then have l: "p_lifetime (Particle_updates (replicate (Suc n) (1 / 2)) (ex_particle 40))
                  = of_int (79 - int n) / 2"
    unfolding r Particle_updates_snoc Particle_update_lifetime ih(1) .
  have "0 < (of_int (79 - int n) / 2 :: real)" using Suc.prems by simp
  then have "alive (Particle_updates (replicate (Suc n) (1 / 2)) (ex_particle 40))"
    using ih(2) l unfolding r Particle_updates_snoc by (simp add: Particle_update_alive)
  then show ?case using l by simp
qed

lemma fl_5100: "fl 5100 = 5100"
  using fl_of_int [of 5100] by simp

lemma fl_255_2: "fl (255 / 2) = 255 / 2"
  using fl_half_int [of 255] by simp

text \<open>
  C9 as stated fails in slow motion: a particle of the default lifetime 40, updated 40
  times at speed multiplier \<open>1/2\<close>, has lifetime 20 and alpha 127 and is alive after as
  many ticks as its initial lifetime.
\<close>

theorem particle_alive_in_slow_motion:
  "Particle_init (0, 0) [235, 113, 20] 2 (Some (0, - 1)) (Some (0, 1 / 80)) None (\<lambda>n. 0)
     = Inr (ex_particle 40, \<lambda>n. 0)
   \<and> p_lifetime (Particle_updates (replicate 40 (1 / 2)) (ex_particle 40)) = 20
   \<and> alpha (p_color (Particle_updates (replicate 40 (1 / 2)) (ex_particle 40))) = 127
   \<and> alive (Particle_updates (replicate 40 (1 / 2)) (ex_particle 40))"
proof -
  have init: "Particle_init (0, 0) [235, 113, 20] 2 (Some (0, - 1)) (Some (0, 1 / 80)) None (\<lambda>n. 0)
     = Inr (ex_particle 40, \<lambda>n. 0)"
    by (simp add: Particle_init_def Let_def Color_def Sprite_init_def Surface_def vec_truthy_def
          PARTICLE_LIFETIME_def fl_4 py_int_def)
  have "replicate 40 (1 / 2 :: real) = replicate (Suc 39) (1 / 2)" by simp
  also have "\<dots> = replicate 39 (1 / 2) @ [1 / 2]"
    by (simp only: replicate_Suc replicate_append_same)
  finally have r: "replicate 40 (1 / 2 :: real) = replicate 39 (1 / 2) @ [1 / 2]" .
  have l: "p_lifetime (Particle_updates (replicate 40 (1 / 2)) (ex_particle 40)) = 20"
    and b: "alive (Particle_updates (replicate 40 (1 / 2)) (ex_particle 40))"
    using half_speed_run [of 40] by simp_all
  have "alpha (p_color (Particle_updates (replicate 40 (1 / 2)) (ex_particle 40)))
          = py_int (max (min (fl (fl (255 * 20) / PARTICLE_LIFETIME)) 255) 0)"
    using l unfolding r Particle_updates_snoc Particle_update_alpha by simp
  also have "\<dots> = 127"
    by (simp add: PARTICLE_LIFETIME_def py_int_def fl_5100 fl_255_2)
  finally show ?thesis using init l b by simp
qed

section \<open>What a fracture spawns\<close>







lemma floor_unit_scale:
  fixes u :: real
  assumes "0 \<le> u" "u < 1" "0 < k"
  shows "0 \<le> \<lfloor>u * of_int k\<rfloor> \<and> \<lfloor>u * of_int k\<rfloor> < k"
proof -
  have "u * of_int k < 1 * of_int k"
    using assms by (intro mult_strict_right_mono) auto
  then have "\<lfloor>u * of_int k\<rfloor> < k" by (simp add: floor_less_iff)
  moreover have "0 \<le> u * of_int k" using assms by simp
  ultimately show ?thesis by simp
qed

lemma randint_range:
  assumes "0 \<le> g 0" "g 0 < 1" "a \<le> b"
  shows "a \<le> fst (randint a b g) \<and> fst (randint a b g) \<le> b \<and> snd (randint a b g) = (\<lambda>n. g (Suc n))"
  using floor_unit_scale [of "g 0" "b - a + 1"] assms
  by (simp add: randint_def random_def Let_def)





lemma Arc_init_color:
  assumes g: "\<forall>i. 0 \<le> g i \<and> g i < 1"
    and init: "Arc_init ctr rad col ang spd g = Inr (a, g')"
  shows "length (color a) = 3 \<and> list_all (\<lambda>c. 0 \<le> c \<and> c \<le> 255) (color a)"
proof (cases "col \<noteq> None \<and> col \<noteq> Some []")
  case True
  then obtain c where c: "Color (the col) = Inr c" "color a = [red c, green c, blue c]"
    using init
    by (auto simp add: Arc_init_def Let_def split: sum.splits prod.splits if_splits)
  have ok: "list_all (\<lambda>c. 0 \<le> c \<and> c \<le> 255) (the col)" and len: "3 \<le> length (the col)"
    using c(1) by (auto simp add: Color_def split: if_splits)
  have each: "0 \<le> x \<and> x \<le> 255" if "x \<in> set (the col)" for x
    using ok that by (simp add: list_all_iff)
  have "the col ! 0 \<in> set (the col)" "the col ! 1 \<in> set (the col)" "the col ! 2 \<in> set (the col)"
    using len by (auto intro!: nth_mem)
  then have "list_all (\<lambda>c. 0 \<le> c \<and> c \<le> 255) [the col ! 0, the col ! 1, the col ! 2]"
    using each by simp
  moreover have "c = \<lparr>red = the col ! 0, green = the col ! 1, blue = the col ! 2,
                        alpha = (if length (the col) = 4 then the col ! 3 else 255)\<rparr>"
    using c(1) by (auto simp add: Color_def split: if_splits)
  ultimately show ?thesis using c(2) by simp
next
  case False
  define g1 where "g1 = (\<lambda>n. g (Suc n))"
  define g2 where "g2 = (\<lambda>n. g1 (Suc n))"
  have r0: "50 \<le> fst (randint 50 255 g) \<and> fst (randint 50 255 g) \<le> 255 \<and> snd (randint 50 255 g) = g1"
    using randint_range [of g 50 255] g by (simp add: g1_def)
  have r1: "50 \<le> fst (randint 50 255 g1) \<and> fst (randint 50 255 g1) \<le> 255 \<and> snd (randint 50 255 g1) = g2"
    using randint_range [of g1 50 255] g by (simp add: g1_def g2_def)
  have r2: "50 \<le> fst (randint 50 255 g2) \<and> fst (randint 50 255 g2) \<le> 255"
    using randint_range [of g2 50 255] g by (simp add: g1_def g2_def)
  have "color a = [fst (randint 50 255 g), fst (randint 50 255 g1), fst (randint 50 255 g2)]"
    using init False r0 r1
    by (auto simp add: Arc_init_def Let_def split: sum.splits prod.splits if_splits)
  then show ?thesis using r0 r1 r2 by simp
qed




lemma fl_2: "fl 2 = 2"
  using fl_of_int [of 2] by simp



section \<open>The collision step of the main loop\<close>

lemma Group_update_arcs:
  "Group_update_sprites m (map ArcObj arcs) b
     = (map ArcObj (map (Arc_update m) (filter alive arcs)), b)"
  by (induction arcs) simp_all

lemma Arc_update_circle: "circle (Arc_update m a) = circle a"
  by (simp add: Arc_update_def)

lemma collision_step_others:
  assumes "collision_step collide_mask a s g = Inr (s', g')"
  shows "butlast (all_sprites s') = butlast (all_sprites s)"
  using assms
  by (auto simp add: collision_step_def split: sum.splits prod.splits if_splits)

text \<open>
  C2, as amended. The primary group holds the ball and then the arcs. In every tick,
  after the update of the groups, \<open>collide_ball\<close> and what follows it (the reflection, the
  fracture) run if and only if at least one arc remains (the group has more than one
  sprite) and the ball's circle is not fully contained in the circle of the last,
  innermost arc; they run on that arc, and the tick leaves every other sprite of the
  group as the update left it.
\<close>

theorem tick_collides_with_innermost:
  fixes s :: state and arcs :: "arc list"
  defines "m \<equiv> Sprite_speed_mult s"
  defines "arcs' \<equiv> map (Arc_update m) (filter alive arcs)"
  defines "b' \<equiv> Ball_update m (ball s)"
  defines "s1 \<equiv> s\<lparr>ball := b', all_sprites := BallRef # map ArcObj arcs',
                    particles := Group_update_particles m (particles s)\<rparr>"
  assumes shape: "all_sprites s = BallRef # map ArcObj arcs" and live: "alive (ball s)"
  shows "tick collide_mask s g =
           (if arcs' \<noteq> [] \<and> \<not> contains (circle (last arcs')) (circle b')
            then collision_step collide_mask (last arcs') s1 g
            else Inr (s1, g))
         \<and> (\<forall>s' g'. tick collide_mask s g = Inr (s', g') \<longrightarrow>
               butlast (all_sprites s') = butlast (BallRef # map ArcObj arcs'))"
proof -
  have upd: "Group_update_sprites m (all_sprites s) (ball s) = (BallRef # map ArcObj arcs', b')"
    using live by (simp add: shape Group_update_arcs arcs'_def b'_def)
  have eq: "tick collide_mask s g =
           (if arcs' \<noteq> [] \<and> \<not> contains (circle (last arcs')) (circle b')
            then collision_step collide_mask (last arcs') s1 g
            else Inr (s1, g))"
  proof (cases arcs' rule: rev_cases)
    case Nil
    then show ?thesis
      using upd by (simp add: tick_def m_def [symmetric] s1_def)
  next
    case (snoc as a)
    then show ?thesis
      using upd by (simp add: tick_def m_def [symmetric] s1_def member_circle_def)
  qed
  have "butlast (all_sprites s') = butlast (BallRef # map ArcObj arcs')"
    if "tick collide_mask s g = Inr (s', g')" for s' g'
  proof (cases "arcs' \<noteq> [] \<and> \<not> contains (circle (last arcs')) (circle b')")
    case True
    then have "collision_step collide_mask (last arcs') s1 g = Inr (s', g')"
      using that eq by simp
    then have "butlast (all_sprites s') = butlast (all_sprites s1)"
      by (rule collision_step_others)
    then show ?thesis by (simp add: s1_def)
  next
    case False
    then have "s' = s1" using that eq by auto
    then show ?thesis by (simp add: s1_def)
  qed
  with eq show ?thesis by blast
qed

lemma fl_64: "fl (1 / 64) = 1 / 64"
  using fl_dyadic [of 1 "- 6"] by (simp add: powr_neg_numeral)

lemma fl_65_64: "fl (65 / 64) = 65 / 64"
  using fl_dyadic [of 65 "- 6"] by (simp add: powr_neg_numeral)

lemma fl_129_64: "fl (129 / 64) = 129 / 64"
  using fl_dyadic [of 129 "- 6"] by (simp add: powr_neg_numeral)

theorem tick_collides_with_innermost_witness:
  "tick (\<lambda>a b. True)
       (ex_state (ex_ball (0, 55) (25 / 2) (0, 3))
          [BallRef, ArcObj (ex_arc 100 1), ArcObj (ex_arc 60 2)]) (\<lambda>n. 1 / 2)
     = collision_step (\<lambda>a b. True) (ex_arc 60 (129 / 64))
         (ex_state (ex_ball (0, 58) (25 / 2) (0, 131 / 40))
            [BallRef, ArcObj (ex_arc 100 (65 / 64)), ArcObj (ex_arc 60 (129 / 64))])
         (\<lambda>n. 1 / 2)"
  using tick_collides_with_innermost [of "ex_state (ex_ball (0, 55) (25 / 2) (0, 3))
                  [BallRef, ArcObj (ex_arc 100 1), ArcObj (ex_arc 60 2)]"
               "[ex_arc 100 1, ex_arc 60 2]" "\<lambda>a b. True" "\<lambda>n. 1 / 2", THEN conjunct1]
  by (simp add: Arc_update_def Ball_update_def BALL_GRAVITY_def move_ip_def vadd_def vscale_def
        contains_def vsub_def vlength_axis fl_64 fl_65_64 fl_129_64)

text \<open>
  C2 as stated fails when exactly one arc remains: the group is the ball and that arc,
  the ball is not contained in it, and the tick moves the ball back to the boundary and
  reflects its velocity though no more than one arc is left.
\<close>

theorem tick_collides_with_single_arc:
  "tick (\<lambda>a b. True)
       (ex_state (ex_ball (0, 55) (25 / 2) (0, 3)) [BallRef, ArcObj (ex_arc 60 1)])
       (\<lambda>n. 1 / 2)
     = Inr (ex_state (ex_ball (0, 95 / 2) (25 / 2) (0, - (131 / 40)))
              [BallRef, ArcObj (ex_arc 60 (65 / 64))], \<lambda>n. 1 / 2)"
  by (simp add: tick_def collision_step_def collide_ball_def reflect_def normalize_def vreflect_def
        rotate_def rotate_rad_def random_def BALL_REFLECT_ANGLE_def vdot_def
        Arc_update_def Ball_update_def BALL_GRAVITY_def move_ip_def vadd_def vscale_def
        contains_def member_circle_def vsub_def vlength_axis fl_64 fl_65_64 Let_def)

end
